theory Spec2Isabelle
  imports Complex_Main
begin

section \<open>The image class of DIPlib (include/diplib/image.h)\<close>

text \<open>
  A shallow embedding of the parts of \<^verbatim>\<open>dip::Image\<close> that decide its state
  (raw or forged), its raw-state mutators, the release of its data segment and its
  aliasing predicates. A member function becomes a function whose first argument is
  the receiver; a \<^verbatim>\<open>const\<close> member function is a pure function of the image, a
  mutating one returns the image as it is after the call, also when the call throws.
\<close>

subsection \<open>Errors\<close>

text \<open>
  \<^verbatim>\<open>dip_ThrowIf( cond, msg )\<close> throws when \<open>cond\<close> holds. The messages
  \<^verbatim>\<open>E::IMAGE_NOT_RAW\<close> and \<^verbatim>\<open>E::IMAGE_NOT_FORGED\<close> are named constants of the
  library; any other message is a string literal at the place of the throw.
\<close>

datatype error = IMAGE_NOT_RAW | IMAGE_NOT_FORGED | Message string

type_synonym 'a result = "error + 'a"

subsection \<open>Pointers and the shared data segment\<close>

text \<open>
  A \<^verbatim>\<open>void*\<close> is the address it holds; the null pointer is address 0.
\<close>

type_synonym pointer = int

abbreviation nullptr :: pointer where
  "nullptr \<equiv> 0"

text \<open>
  \<^verbatim>\<open>std::shared_ptr< void > dataBlock_\<close>: the image holds the address of the data
  segment, and the segment's control block counts its owners. The store gives the
  use count of every segment; a segment whose count has dropped to 0 has been freed.
  Resetting a shared pointer gives up one ownership, copying one takes one; the null
  pointer owns nothing.
\<close>

type_synonym store = "pointer \<Rightarrow> nat"

definition shared_ptr_release :: "pointer \<Rightarrow> store \<Rightarrow> store" where
  "shared_ptr_release p s = (if p = nullptr then s else s(p := s p - 1))"

definition shared_ptr_acquire :: "pointer \<Rightarrow> store \<Rightarrow> store" where
  "shared_ptr_acquire p s = (if p = nullptr then s else s(p := s p + 1))"

definition freed :: "store \<Rightarrow> pointer \<Rightarrow> bool" where
  "freed s p = (s p = 0)"

subsection \<open>Data type, tensor and pixel size descriptors\<close>

text \<open>
  The data types are those the constructor \<^verbatim>\<open>Image( T p, dip::DataType dt )\<close>
  dispatches on.
\<close>

datatype DataType =
    DT_BIN | DT_UINT8 | DT_UINT16 | DT_UINT32 | DT_SINT8 | DT_SINT16 | DT_SINT32
  | DT_SFLOAT | DT_DFLOAT | DT_SCOMPLEX | DT_DCOMPLEX

text \<open>
  Modelled from the spec: \<^verbatim>\<open>DataType::SizeOf\<close> (diplib/datatype.h is not among the
  sources at hand). The spec lists unsigned and signed integers of several widths, two
  floating-point widths, two complex widths and a boolean; the width in bytes of each
  is the one its name declares, a binary sample taking one byte.
\<close>

fun SizeOf :: "DataType \<Rightarrow> nat" where
  "SizeOf DT_BIN = 1"
| "SizeOf DT_UINT8 = 1"
| "SizeOf DT_UINT16 = 2"
| "SizeOf DT_UINT32 = 4"
| "SizeOf DT_SINT8 = 1"
| "SizeOf DT_SINT16 = 2"
| "SizeOf DT_SINT32 = 4"
| "SizeOf DT_SFLOAT = 4"
| "SizeOf DT_DFLOAT = 8"
| "SizeOf DT_SCOMPLEX = 8"
| "SizeOf DT_DCOMPLEX = 16"

text \<open>
  Modelled from the spec: \<^verbatim>\<open>dip::Tensor\<close> (diplib/tensor.h is not among the sources
  at hand), "element count plus a shape tag (vector, full matrix,
  symmetric/diagonal/triangular matrix)".
\<close>

datatype Shape = VECTOR | FULL_MATRIX | SYMMETRIC_MATRIX | DIAGONAL_MATRIX | TRIANGULAR_MATRIX

record Tensor =
  shape :: Shape
  elements :: nat

text \<open>The default-initialized image has one tensor element.\<close>

definition Tensor_default :: Tensor where
  "Tensor_default = \<lparr>shape = VECTOR, elements = 1\<rparr>"

text \<open>
  The setters of the tensor class are not among the sources at hand, so the image's
  tensor mutators take them as a parameter: given the argument and the tensor, the
  message thrown (if any) and the tensor as it is after the call.
\<close>

type_synonym 'a tensor_setter = "'a \<Rightarrow> Tensor \<Rightarrow> string option \<times> Tensor"

text \<open>
  Modelled from the spec: \<^verbatim>\<open>dip::PixelSize\<close> (diplib/physdims.h is not among the
  sources at hand), an "optional physical-units-per-pixel-per-dimension record": one
  physical quantity per dimension, none at all in the default-initialized value.
\<close>

record PhysicalQuantity =
  magnitude :: real
  units :: string

type_synonym PixelSize = "PhysicalQuantity list"

definition PixelSize_default :: PixelSize where
  "PixelSize_default = []"

subsection \<open>The image\<close>

text \<open>
  The private members of the class, in the order of their declaration (the trailing
  underscore of each name is dropped). Sizes are
  unsigned, strides and the tensor stride are signed and counted in samples.
\<close>

record Image =
  dataType :: DataType
  sizes :: "nat list"
  strides :: "int list"
  tensor :: Tensor
  tensorStride :: int
  protect :: bool
  colorSpace :: string
  pixelSize :: PixelSize
  dataBlock :: pointer
  origin :: pointer
  externalInterface :: pointer

text \<open>The default constructor \<^verbatim>\<open>Image() {}\<close>: the member initializers.\<close>

definition Image_default :: Image where
  "Image_default =
     \<lparr>dataType = DT_SFLOAT, sizes = [], strides = [], tensor = Tensor_default,
      tensorStride = 0, protect = False, colorSpace = [], pixelSize = PixelSize_default,
      dataBlock = nullptr, origin = nullptr, externalInterface = nullptr\<rparr>"

definition IsForged :: "Image \<Rightarrow> bool" where
  "IsForged img = (origin img \<noteq> nullptr)"

definition Protect :: "Image \<Rightarrow> bool \<Rightarrow> Image" where
  "Protect img b = img\<lparr>protect := b\<rparr>"

definition IsProtected :: "Image \<Rightarrow> bool" where
  "IsProtected img = protect img"

subsection \<open>Mutators that require a raw image\<close>

text \<open>
  Each one starts with \<^verbatim>\<open>dip_ThrowIf( IsForged(), E::IMAGE_NOT_RAW )\<close> and then
  assigns. The result is the outcome together with the image after the call.
\<close>

definition SetSizes :: "Image \<Rightarrow> nat list \<Rightarrow> unit result \<times> Image" where
  "SetSizes img d =
     (if IsForged img then (Inl IMAGE_NOT_RAW, img) else (Inr (), img\<lparr>sizes := d\<rparr>))"

definition SetStrides :: "Image \<Rightarrow> int list \<Rightarrow> unit result \<times> Image" where
  "SetStrides img s =
     (if IsForged img then (Inl IMAGE_NOT_RAW, img) else (Inr (), img\<lparr>strides := s\<rparr>))"

definition SetTensorStride :: "Image \<Rightarrow> int \<Rightarrow> unit result \<times> Image" where
  "SetTensorStride img ts =
     (if IsForged img then (Inl IMAGE_NOT_RAW, img) else (Inr (), img\<lparr>tensorStride := ts\<rparr>))"

text \<open>
  \<^verbatim>\<open>SetTensorSizes( UnsignedArray const& tdims )\<close> hands \<open>tdims\<close> to
  \<^verbatim>\<open>tensor_.SetSizes\<close>, \<^verbatim>\<open>SetTensorSizes( dip::uint nelems )\<close> hands \<open>nelems\<close> to
  \<^verbatim>\<open>tensor_.SetVector\<close>; both tensor setters are parameters here.
\<close>

definition SetTensorSizes ::
  "nat list tensor_setter \<Rightarrow> Image \<Rightarrow> nat list \<Rightarrow> unit result \<times> Image" where
  "SetTensorSizes Tensor_SetSizes img tdims =
     (if IsForged img then (Inl IMAGE_NOT_RAW, img)
      else (case Tensor_SetSizes tdims (tensor img) of
              (None, t) \<Rightarrow> (Inr (), img\<lparr>tensor := t\<rparr>)
            | (Some msg, t) \<Rightarrow> (Inl (Message msg), img\<lparr>tensor := t\<rparr>)))"

definition SetTensorSizes_nelems ::
  "nat tensor_setter \<Rightarrow> Image \<Rightarrow> nat \<Rightarrow> unit result \<times> Image" where
  "SetTensorSizes_nelems Tensor_SetVector img nelems =
     (if IsForged img then (Inl IMAGE_NOT_RAW, img)
      else (case Tensor_SetVector nelems (tensor img) of
              (None, t) \<Rightarrow> (Inr (), img\<lparr>tensor := t\<rparr>)
            | (Some msg, t) \<Rightarrow> (Inl (Message msg), img\<lparr>tensor := t\<rparr>)))"

definition SetDataType :: "Image \<Rightarrow> DataType \<Rightarrow> unit result \<times> Image" where
  "SetDataType img dt =
     (if IsForged img then (Inl IMAGE_NOT_RAW, img) else (Inr (), img\<lparr>dataType := dt\<rparr>))"

definition CopyProperties :: "Image \<Rightarrow> Image \<Rightarrow> unit result \<times> Image" where
  "CopyProperties img src =
     (if IsForged img then (Inl IMAGE_NOT_RAW, img)
      else (Inr (),
            img\<lparr>dataType := dataType src,
                sizes := sizes src,
                strides := strides src,
                tensor := tensor src,
                tensorStride := tensorStride src,
                colorSpace := colorSpace src,
                pixelSize := pixelSize src,
                externalInterface :=
                  (if externalInterface img = nullptr then externalInterface src
                   else externalInterface img)\<rparr>))"

definition SetExternalInterface :: "Image \<Rightarrow> pointer \<Rightarrow> unit result \<times> Image" where
  "SetExternalInterface img ei =
     (if IsForged img then (Inl IMAGE_NOT_RAW, img)
      else (Inr (), img\<lparr>externalInterface := ei\<rparr>))"

subsection \<open>Queries that require a forged image\<close>

text \<open>
  The use count of a shared pointer: that of the segment it points at, 0 for the null
  pointer.
\<close>

definition use_count :: "pointer \<Rightarrow> store \<Rightarrow> nat" where
  "use_count p s = (if p = nullptr then 0 else s p)"

definition Data :: "Image \<Rightarrow> pointer result" where
  "Data img = (if \<not> IsForged img then Inl IMAGE_NOT_FORGED else Inr (dataBlock img))"

definition IsShared :: "Image \<Rightarrow> store \<Rightarrow> bool result" where
  "IsShared img s =
     (if \<not> IsForged img then Inl IMAGE_NOT_FORGED
      else Inr (\<not> (use_count (dataBlock img) s = 1)))"

definition ShareCount :: "Image \<Rightarrow> store \<Rightarrow> nat result" where
  "ShareCount img s =
     (if \<not> IsForged img then Inl IMAGE_NOT_FORGED else Inr (use_count (dataBlock img) s))"

definition Origin :: "Image \<Rightarrow> pointer result" where
  "Origin img = (if \<not> IsForged img then Inl IMAGE_NOT_FORGED else Inr (origin img))"

definition SharesData :: "Image \<Rightarrow> Image \<Rightarrow> bool result" where
  "SharesData img other =
     (if \<not> IsForged img then Inl IMAGE_NOT_FORGED
      else if \<not> IsForged other then Inl IMAGE_NOT_FORGED
      else Inr (dataBlock img = dataBlock other))"

definition IsIdenticalView :: "Image \<Rightarrow> Image \<Rightarrow> bool result" where
  "IsIdenticalView img other =
     (if \<not> IsForged img then Inl IMAGE_NOT_FORGED
      else if \<not> IsForged other then Inl IMAGE_NOT_FORGED
      else Inr (origin img = origin other \<and>
                dataType img = dataType other \<and>
                strides img = strides other \<and>
                tensorStride img = tensorStride other))"

subsection \<open>Sample addresses and aliasing\<close>

text \<open>
  \<^verbatim>\<open>Pointer( dip::sint offset )\<close>: the address of the sample \<open>offset\<close> samples away
  from the origin. No check is made.
\<close>

definition Pointer :: "Image \<Rightarrow> int \<Rightarrow> pointer" where
  "Pointer img offset = origin img + offset * int (SizeOf (dataType img))"

text \<open>
  Modelled from the spec: the offsets of the samples of a view. The offset of a
  coordinate tuple is its "dot product with strides, including tensor offset when
  indexing a sample", each coordinate staying below the size of its dimension. A
  dimension is a pair of its size and its stride.
\<close>

fun Offsets :: "(nat \<times> int) list \<Rightarrow> int list" where
  "Offsets [] = [0]"
| "Offsets ((n, s) # dims) = concat (map (\<lambda>c. map (\<lambda>off. int c * s + off) (Offsets dims)) [0..<n])"

definition SampleAddresses :: "Image \<Rightarrow> pointer list" where
  "SampleAddresses img =
     map (Pointer img)
       (Offsets ((elements (tensor img), tensorStride img) # zip (sizes img) (strides img)))"

text \<open>
  Modelled from the spec: \<^verbatim>\<open>Image::Aliases\<close> is declared in image.h and defined in
  src/library/image_data.cpp, which is not among the sources at hand. "Both arrays
  must be forged"; sharing the storage block is the "necessary precondition for all
  other checks"; the result is "true iff any sample address is reachable from both
  views", the addresses being those "implied by each view's
  origin/strides/sizes/tensor layout".
\<close>

definition Aliases :: "Image \<Rightarrow> Image \<Rightarrow> bool result" where
  "Aliases img other =
     (if \<not> IsForged img then Inl IMAGE_NOT_FORGED
      else if \<not> IsForged other then Inl IMAGE_NOT_FORGED
      else Inr (dataBlock img = dataBlock other \<and>
                (\<exists>a \<in> set (SampleAddresses img). a \<in> set (SampleAddresses other))))"

text \<open>
  \<^verbatim>\<open>return Aliases( other ) && !IsIdenticalView( other );\<close> The right operand is
  evaluated only when the left one is true; an exception of either leaves the function.
\<close>

definition IsOverlappingView :: "Image \<Rightarrow> Image \<Rightarrow> bool result" where
  "IsOverlappingView img other =
     (case Aliases img other of
        Inl e \<Rightarrow> Inl e
      | Inr a \<Rightarrow>
          if a then (case IsIdenticalView img other of
                       Inl e \<Rightarrow> Inl e
                     | Inr i \<Rightarrow> Inr (\<not> i))
          else Inr False)"

text \<open>
  The loop of the two collection overloads,
  \<^verbatim>\<open>for( ii = 0; ii < other.size(); ++ii ) { tmp = other[ ii ];
       if( tmp.IsForged() && IsOverlappingView( tmp )) { return true; } } return false;\<close>
  The second component of the result counts the elements the loop has looked at when
  the function is left (by either \<^verbatim>\<open>return\<close>, or by an exception).
\<close>

fun IsOverlappingView_loop :: "Image \<Rightarrow> Image list \<Rightarrow> bool result \<times> nat" where
  "IsOverlappingView_loop img [] = (Inr False, 0)"
| "IsOverlappingView_loop img (tmp # rest) =
     (if IsForged tmp then
        (case IsOverlappingView img tmp of
           Inl e \<Rightarrow> (Inl e, 1)
         | Inr ov \<Rightarrow>
             if ov then (Inr True, 1)
             else (case IsOverlappingView_loop img rest of (r, n) \<Rightarrow> (r, Suc n)))
      else (case IsOverlappingView_loop img rest of (r, n) \<Rightarrow> (r, Suc n)))"

text \<open>
  \<^verbatim>\<open>IsOverlappingView( ImageConstRefArray const& other )\<close> reads each element through
  its reference wrapper, \<^verbatim>\<open>IsOverlappingView( ImageArray const& other )\<close> reads it
  directly; the images are constant, so both collections are lists of images.
\<close>

definition IsOverlappingView_ImageConstRefArray :: "Image \<Rightarrow> Image list \<Rightarrow> bool result" where
  "IsOverlappingView_ImageConstRefArray img other = fst (IsOverlappingView_loop img other)"

definition IsOverlappingView_ImageArray :: "Image \<Rightarrow> Image list \<Rightarrow> bool result" where
  "IsOverlappingView_ImageArray img other = fst (IsOverlappingView_loop img other)"

subsection \<open>Releasing and sharing the data segment\<close>

text \<open>
  Assigning to a shared pointer: the new segment gains an owner, the old one loses one.
\<close>

definition shared_ptr_assign :: "pointer \<Rightarrow> pointer \<Rightarrow> store \<Rightarrow> store" where
  "shared_ptr_assign old new s = shared_ptr_release old (shared_ptr_acquire new s)"

text \<open>
  \<^verbatim>\<open>Strip()\<close>: nothing happens to a raw image; a forged one is released unless it is
  protected. The result is the outcome, the image after the call and the store after
  the call.
\<close>

definition Strip :: "Image \<Rightarrow> store \<Rightarrow> unit result \<times> Image \<times> store" where
  "Strip img s =
     (if IsForged img then
        (if IsProtected img then (Inl (Message ''Image is protected''), img, s)
         else (Inr (),
               img\<lparr>dataBlock := nullptr, origin := nullptr\<rparr>,
               shared_ptr_assign (dataBlock img) nullptr s))
      else (Inr (), img, s))"

text \<open>
  \<^verbatim>\<open>QuickCopy()\<close>: a default-constructed image that is assigned eight members of
  this one; assigning the data block makes the copy one more owner of the segment.
\<close>

definition QuickCopy :: "Image \<Rightarrow> store \<Rightarrow> Image \<times> store" where
  "QuickCopy img s =
     (let out = Image_default in
        (out\<lparr>dataType := dataType img,
             sizes := sizes img,
             strides := strides img,
             tensor := tensor img,
             tensorStride := tensorStride img,
             dataBlock := dataBlock img,
             origin := origin img,
             externalInterface := externalInterface img\<rparr>,
         shared_ptr_assign (dataBlock out) (dataBlock img) s))"

subsection \<open>Example images\<close>

text \<open>
  A forged 3 by 3 scalar image of 16-bit samples on the segment at address 1000, with
  normal strides; it is protected and carries a colour space and a pixel size.
\<close>

definition example_parent :: Image where
  "example_parent =
     \<lparr>dataType = DT_UINT16, sizes = [3, 3], strides = [1, 3], tensor = Tensor_default,
      tensorStride = 1, protect = True, colorSpace = ''RGB'',
      pixelSize = [\<lparr>magnitude = 2, units = ''um''\<rparr>],
      dataBlock = 1000, origin = 1000, externalInterface = 7\<rparr>"

text \<open>
  Three unprotected views of it: rows and columns 0 to 1, rows and columns 1 to 2 (it
  has the sample at coordinates (1, 1) in common with the first), and the last row (it
  has nothing in common with the first).
\<close>

definition example_view_low :: Image where
  "example_view_low = example_parent\<lparr>sizes := [2, 2], protect := False\<rparr>"

definition example_view_high :: Image where
  "example_view_high = example_parent\<lparr>sizes := [2, 2], protect := False, origin := 1008\<rparr>"

definition example_view_last_row :: Image where
  "example_view_last_row = example_parent\<lparr>sizes := [3, 1], protect := False, origin := 1012\<rparr>"

text \<open>A raw image with a size and an external interface set, and a store.\<close>

definition example_raw :: Image where
  "example_raw = Image_default\<lparr>sizes := [4, 5], externalInterface := 9\<rparr>"

text \<open>A tensor setter that makes the tensor a vector of the given length and never throws.\<close>

definition example_SetVector :: "nat tensor_setter" where
  "example_SetVector n t = (None, t\<lparr>shape := VECTOR, elements := n\<rparr>)"


definition example_store :: store where
  "example_store = (\<lambda>p. if p = 1000 then 2 else 0)"

section \<open>Sharing a data segment and viewing the same samples\<close>

lemma example_forged:
  "IsForged example_parent" "IsForged example_view_low" "IsForged example_view_high"
  "IsForged example_view_last_row" "\<not> IsForged example_raw" "\<not> IsForged Image_default"
  by (simp_all add: IsForged_def example_parent_def example_view_low_def
      example_view_high_def example_view_last_row_def example_raw_def Image_default_def)

text \<open>
  C4. \<^verbatim>\<open>A.SharesData( B )\<close> throws \<^verbatim>\<open>E::IMAGE_NOT_FORGED\<close> when \<open>A\<close> or \<open>B\<close> is
  raw; on two forged images it returns whether their data block pointers are the same,
  and so it gives the same answer for any other two forged images on these two data
  blocks, whatever their origins, strides and sizes are.
\<close>

theorem SharesData_spec:
  "(\<not> IsForged A \<or> \<not> IsForged B \<longrightarrow> SharesData A B = Inl IMAGE_NOT_FORGED) \<and>
   (IsForged A \<and> IsForged B \<longrightarrow> SharesData A B = Inr (dataBlock A = dataBlock B)) \<and>
   (IsForged A \<and> IsForged B \<and> IsForged A' \<and> IsForged B' \<and>
    dataBlock A' = dataBlock A \<and> dataBlock B' = dataBlock B \<longrightarrow>
      SharesData A' B' = SharesData A B)"
  by (simp add: SharesData_def)

theorem SharesData_spec_witness:
  "IsForged example_view_low \<and> IsForged example_view_last_row \<and> \<not> IsForged example_raw \<and>
   SharesData example_view_low example_view_last_row = Inr True \<and>
   SharesData example_view_low example_raw = Inl IMAGE_NOT_FORGED \<and>
   SharesData example_parent example_parent = SharesData example_view_low example_view_last_row"
proof -
  have blocks: "dataBlock example_view_low = dataBlock example_view_last_row"
    "dataBlock example_view_low = dataBlock example_parent"
    "dataBlock example_view_last_row = dataBlock example_parent"
    by (simp_all add: example_view_low_def example_view_last_row_def)
  have "SharesData example_view_low example_view_last_row = Inr True"
    using SharesData_spec [of example_view_low example_view_last_row] example_forged blocks
    by simp
  moreover have "SharesData example_view_low example_raw = Inl IMAGE_NOT_FORGED"
    using SharesData_spec [of example_view_low example_raw] example_forged by simp
  moreover have "SharesData example_parent example_parent
      = SharesData example_view_low example_view_last_row"
    using SharesData_spec [of example_view_low example_view_last_row
        example_parent example_parent] example_forged blocks
    by simp
  ultimately show ?thesis using example_forged by simp
qed

text \<open>
  C3. On two forged images \<^verbatim>\<open>A.IsIdenticalView( B )\<close> returns whether the origins,
  the data types, the stride arrays and the tensor strides of \<open>A\<close> and \<open>B\<close> are all
  equal; when either image is raw it throws \<^verbatim>\<open>E::IMAGE_NOT_FORGED\<close> instead.
\<close>

theorem IsIdenticalView_spec:
  "(IsForged A \<and> IsForged B \<longrightarrow>
      (IsIdenticalView A B = Inr True \<or> IsIdenticalView A B = Inr False) \<and>
      (IsIdenticalView A B = Inr True \<longleftrightarrow>
         origin A = origin B \<and> dataType A = dataType B \<and>
         strides A = strides B \<and> tensorStride A = tensorStride B)) \<and>
   (\<not> IsForged A \<or> \<not> IsForged B \<longrightarrow> IsIdenticalView A B = Inl IMAGE_NOT_FORGED)"
  by (simp add: IsIdenticalView_def)

theorem IsIdenticalView_spec_witness:
  "IsForged example_view_low \<and> IsForged example_view_high \<and> \<not> IsForged example_raw \<and>
   IsIdenticalView example_view_low example_view_low = Inr True \<and>
   IsIdenticalView example_view_low example_view_high = Inr False \<and>
   IsIdenticalView example_raw example_view_low = Inl IMAGE_NOT_FORGED"
proof -
  have "IsIdenticalView example_view_low example_view_low = Inr True"
    using IsIdenticalView_spec [of example_view_low example_view_low] example_forged by simp
  moreover have "origin example_view_low \<noteq> origin example_view_high"
    by (simp add: example_view_low_def example_view_high_def example_parent_def)
  then have "IsIdenticalView example_view_low example_view_high = Inr False"
    using IsIdenticalView_spec [of example_view_low example_view_high] example_forged by auto
  moreover have "IsIdenticalView example_raw example_view_low = Inl IMAGE_NOT_FORGED"
    using IsIdenticalView_spec [of example_raw example_view_low] example_forged by simp
  ultimately show ?thesis using example_forged by simp
qed

section \<open>Aliasing and overlapping views\<close>

lemma Aliases_forged:
  "IsForged A \<Longrightarrow> IsForged B \<Longrightarrow>
   Aliases A B = Inr (dataBlock A = dataBlock B \<and>
                      (\<exists>a \<in> set (SampleAddresses A). a \<in> set (SampleAddresses B)))"
  by (simp add: Aliases_def)

lemma Aliases_raw:
  "\<not> IsForged A \<or> \<not> IsForged B \<Longrightarrow> Aliases A B = Inl IMAGE_NOT_FORGED"
  by (auto simp: Aliases_def)

lemma IsIdenticalView_forged:
  "IsForged A \<Longrightarrow> IsForged B \<Longrightarrow> \<exists>i. IsIdenticalView A B = Inr i"
  by (simp add: IsIdenticalView_def)

lemma IsOverlappingView_forged:
  "IsForged A \<Longrightarrow> IsForged B \<Longrightarrow> \<exists>b. IsOverlappingView A B = Inr b"
  by (auto simp: IsOverlappingView_def Aliases_def IsIdenticalView_def)

lemma IsOverlappingView_raw:
  "\<not> IsForged A \<or> \<not> IsForged B \<Longrightarrow> IsOverlappingView A B = Inl IMAGE_NOT_FORGED"
  by (simp add: IsOverlappingView_def Aliases_raw)

lemma example_Aliases:
  "Aliases example_view_low example_view_high = Inr True"
  "Aliases example_view_high example_view_low = Inr True"
  "Aliases example_view_low example_view_low = Inr True"
  "Aliases example_view_low example_view_last_row = Inr False"
  "Aliases example_view_last_row example_view_low = Inr False"
  by code_simp+

lemma example_IsIdenticalView:
  "IsIdenticalView example_view_low example_view_high = Inr False"
  "IsIdenticalView example_view_low example_view_low = Inr True"
  "IsIdenticalView example_view_low example_view_last_row = Inr False"
  by code_simp+

text \<open>
  C1. On two forged images \<^verbatim>\<open>A.IsOverlappingView( B )\<close> returns a value, and that
  value is true exactly when \<^verbatim>\<open>A.Aliases( B )\<close> returns true and
  \<^verbatim>\<open>A.IsIdenticalView( B )\<close> returns false.
\<close>

theorem IsOverlappingView_spec:
  assumes "IsForged A" and "IsForged B"
  shows "(IsOverlappingView A B = Inr True \<or> IsOverlappingView A B = Inr False) \<and>
         (IsOverlappingView A B = Inr True \<longleftrightarrow>
            Aliases A B = Inr True \<and> IsIdenticalView A B = Inr False)"
proof -
  obtain a where a: "Aliases A B = Inr a"
    using Aliases_forged [OF assms] by blast
  obtain i where i: "IsIdenticalView A B = Inr i"
    using assms IsIdenticalView_forged by blast
  have "IsOverlappingView A B = Inr (a \<and> \<not> i)"
    by (simp add: IsOverlappingView_def a i)
  then show ?thesis
    using a i by auto
qed

theorem IsOverlappingView_spec_witness:
  "IsForged example_view_low \<and> IsForged example_view_high \<and>
   IsForged example_view_last_row \<and>
   IsOverlappingView example_view_low example_view_high = Inr True \<and>
   IsOverlappingView example_view_low example_view_low = Inr False \<and>
   IsOverlappingView example_view_low example_view_last_row = Inr False"
proof -
  have "IsOverlappingView example_view_low example_view_high = Inr True"
    using IsOverlappingView_spec [of example_view_low example_view_high]
      example_forged example_Aliases example_IsIdenticalView
    by simp
  moreover have "IsOverlappingView example_view_low example_view_low = Inr False"
    using IsOverlappingView_spec [of example_view_low example_view_low]
      example_forged example_Aliases example_IsIdenticalView
    by auto
  moreover have "IsOverlappingView example_view_low example_view_last_row = Inr False"
    using IsOverlappingView_spec [of example_view_low example_view_last_row]
      example_forged example_Aliases example_IsIdenticalView
    by auto
  ultimately show ?thesis using example_forged by simp
qed

text \<open>
  C8. On two forged images \<^verbatim>\<open>A.Aliases( B )\<close> and \<^verbatim>\<open>B.Aliases( A )\<close> return the
  same value.
\<close>

theorem Aliases_symmetric:
  assumes "IsForged A" and "IsForged B"
  shows "\<exists>b. Aliases A B = Inr b \<and> Aliases B A = Inr b"
proof -
  have "(\<exists>a \<in> set (SampleAddresses A). a \<in> set (SampleAddresses B))
      \<longleftrightarrow> (\<exists>a \<in> set (SampleAddresses B). a \<in> set (SampleAddresses A))"
    by blast
  moreover have "dataBlock A = dataBlock B \<longleftrightarrow> dataBlock B = dataBlock A"
    by (rule eq_commute)
  ultimately show ?thesis
    using assms by (simp add: Aliases_forged)
qed

theorem Aliases_symmetric_witness:
  "IsForged example_view_low \<and> IsForged example_view_high \<and>
   IsForged example_view_last_row \<and>
   Aliases example_view_high example_view_low = Inr True \<and>
   Aliases example_view_last_row example_view_low = Inr False"
proof -
  have "Aliases example_view_high example_view_low = Inr True"
    using Aliases_symmetric [of example_view_low example_view_high]
      example_forged example_Aliases(1)
    by auto
  moreover have "Aliases example_view_last_row example_view_low = Inr False"
    using Aliases_symmetric [of example_view_low example_view_last_row]
      example_forged example_Aliases(4)
    by auto
  ultimately show ?thesis using example_forged by simp
qed

section \<open>Overlap with a collection of images\<close>

lemma loop_step_skip:
  "\<not> IsForged tmp \<or> IsOverlappingView img tmp = Inr False \<Longrightarrow>
   IsOverlappingView_loop img (tmp # rest) =
     (fst (IsOverlappingView_loop img rest), Suc (snd (IsOverlappingView_loop img rest)))"
  by (auto simp: split_def)

lemma loop_step_hit:
  "IsForged tmp \<Longrightarrow> IsOverlappingView img tmp = Inr True \<Longrightarrow>
   IsOverlappingView_loop img (tmp # rest) = (Inr True, 1)"
  by simp

lemma not_overlapping_cases:
  assumes "IsForged A" and "IsOverlappingView A tmp \<noteq> Inr True"
  shows "\<not> IsForged tmp \<or> IsOverlappingView A tmp = Inr False"
proof (cases "IsForged tmp")
  case True
  then obtain b where "IsOverlappingView A tmp = Inr b"
    using assms(1) IsOverlappingView_forged by blast
  with assms(2) show ?thesis by (cases b) simp_all
next
  case False
  then show ?thesis by simp
qed

lemma overlapping_forged:
  "IsOverlappingView A tmp = Inr True \<Longrightarrow> IsForged tmp"
  using IsOverlappingView_raw [of A tmp] by auto

lemma loop_result:
  assumes "IsForged A"
  shows "fst (IsOverlappingView_loop A other)
         = Inr (\<exists>tmp \<in> set other. IsOverlappingView A tmp = Inr True)"
proof (induction other)
  case Nil
  show ?case by simp
next
  case (Cons tmp rest)
  show ?case
  proof (cases "IsOverlappingView A tmp = Inr True")
    case True
    then show ?thesis
      using loop_step_hit [OF overlapping_forged [OF True] True] by simp
  next
    case False
    then show ?thesis
      using loop_step_skip [OF not_overlapping_cases [OF assms False]] Cons.IH by simp
  qed
qed

lemma loop_stops_at_first:
  assumes "IsForged A"
    and "\<forall>x \<in> set pre. IsOverlappingView A x \<noteq> Inr True"
    and "IsOverlappingView A tmp = Inr True"
  shows "IsOverlappingView_loop A (pre @ tmp # post) = (Inr True, Suc (length pre))"
  using assms(2)
proof (induction pre)
  case Nil
  show ?case
    using loop_step_hit [OF overlapping_forged [OF assms(3)] assms(3)] by simp
next
  case (Cons x pre)
  then have x: "IsOverlappingView A x \<noteq> Inr True"
    and IH: "IsOverlappingView_loop A (pre @ tmp # post) = (Inr True, Suc (length pre))"
    by simp_all
  show ?case
    using loop_step_skip [OF not_overlapping_cases [OF assms(1) x], of "pre @ tmp # post"] IH
    by simp
qed

lemma loop_runs_to_end:
  assumes "\<forall>x \<in> set other. \<not> IsForged x \<or> IsOverlappingView A x = Inr False"
  shows "IsOverlappingView_loop A other = (Inr False, length other)"
  using assms
proof (induction other)
  case Nil
  show ?case by simp
next
  case (Cons x rest)
  then have x: "\<not> IsForged x \<or> IsOverlappingView A x = Inr False"
    and IH: "IsOverlappingView_loop A rest = (Inr False, length rest)"
    by simp_all
  show ?case
    using loop_step_skip [OF x, of rest] IH by simp
qed

lemma loop_filter_forged:
  "fst (IsOverlappingView_loop A (filter IsForged other)) = fst (IsOverlappingView_loop A other)"
  by (induction other) (auto simp: split_def split: sum.splits)

lemma example_IsOverlappingView:
  "IsOverlappingView example_view_low example_raw \<noteq> Inr True"
  "IsOverlappingView example_view_low example_view_last_row \<noteq> Inr True"
  "IsOverlappingView example_view_low example_view_high = Inr True"
  by code_simp+

text \<open>
  C5. For a forged image \<open>A\<close> both collection overloads of \<^verbatim>\<open>IsOverlappingView\<close>
  return true exactly when \<^verbatim>\<open>A.IsOverlappingView( tmp )\<close> returns true for some
  element \<open>tmp\<close> of the collection. When \<open>tmp\<close> is the first such element, the loop
  returns true after looking at \<open>tmp\<close> and the elements before it, and at none of
  those behind it.
\<close>

theorem IsOverlappingView_collection_spec:
  assumes "IsForged A"
  shows "IsOverlappingView_ImageConstRefArray A other
           = Inr (\<exists>tmp \<in> set other. IsOverlappingView A tmp = Inr True) \<and>
         IsOverlappingView_ImageArray A other
           = Inr (\<exists>tmp \<in> set other. IsOverlappingView A tmp = Inr True) \<and>
         (\<forall>pre tmp post.
            other = pre @ tmp # post \<and>
            (\<forall>x \<in> set pre. IsOverlappingView A x \<noteq> Inr True) \<and>
            IsOverlappingView A tmp = Inr True \<longrightarrow>
              IsOverlappingView_loop A other = (Inr True, Suc (length pre)))"
  using loop_result [OF assms, of other] loop_stops_at_first [OF assms]
  by (simp add: IsOverlappingView_ImageConstRefArray_def IsOverlappingView_ImageArray_def)

theorem IsOverlappingView_collection_spec_witness:
  "IsForged example_view_low \<and>
   IsOverlappingView_ImageArray example_view_low
     [example_raw, example_view_last_row, example_view_high, example_view_high] = Inr True \<and>
   IsOverlappingView_ImageConstRefArray example_view_low
     [example_raw, example_view_last_row, example_view_high, example_view_high] = Inr True \<and>
   IsOverlappingView_loop example_view_low
     [example_raw, example_view_last_row, example_view_high, example_view_high] = (Inr True, 3) \<and>
   IsOverlappingView_ImageArray example_view_low [example_raw, example_view_last_row] = Inr False"
proof -
  let ?other = "[example_raw, example_view_last_row, example_view_high, example_view_high]"
  note spec = IsOverlappingView_collection_spec [OF example_forged(2)]
  have "IsOverlappingView_ImageArray example_view_low ?other = Inr True"
    "IsOverlappingView_ImageConstRefArray example_view_low ?other = Inr True"
    using spec [of ?other] example_IsOverlappingView by simp_all
  moreover have "IsOverlappingView_loop example_view_low ?other
      = (Inr True, Suc (length [example_raw, example_view_last_row]))"
  proof (rule spec [of ?other, THEN conjunct2, THEN conjunct2, rule_format,
        of "[example_raw, example_view_last_row]" example_view_high "[example_view_high]"])
    show "?other = [example_raw, example_view_last_row] @ example_view_high # [example_view_high] \<and>
      (\<forall>x \<in> set [example_raw, example_view_last_row].
          IsOverlappingView example_view_low x \<noteq> Inr True) \<and>
      IsOverlappingView example_view_low example_view_high = Inr True"
      using example_IsOverlappingView by simp
  qed
  then have "IsOverlappingView_loop example_view_low ?other = (Inr True, 3)"
    by simp
  moreover have "IsOverlappingView_ImageArray example_view_low [example_raw, example_view_last_row]
      = Inr False"
    using spec [of "[example_raw, example_view_last_row]"] example_IsOverlappingView by simp
  ultimately show ?thesis using example_forged by simp
qed

lemma loop_raw_receiver:
  assumes "\<not> IsForged A"
  shows "fst (IsOverlappingView_loop A other)
         = (if \<exists>tmp \<in> set other. IsForged tmp then Inl IMAGE_NOT_FORGED else Inr False)"
proof (induction other)
  case Nil
  show ?case by simp
next
  case (Cons tmp rest)
  have "IsOverlappingView A tmp = Inl IMAGE_NOT_FORGED"
    using assms by (simp add: IsOverlappingView_raw)
  then show ?case
    using Cons.IH by (simp add: split_def)
qed

lemma loop_error:
  assumes "fst (IsOverlappingView_loop A other) = Inl e"
  shows "e = IMAGE_NOT_FORGED \<and> \<not> IsForged A \<and> (\<exists>tmp \<in> set other. IsForged tmp)"
proof (cases "IsForged A")
  case True
  then show ?thesis
    using assms loop_result [of A other] by simp
next
  case False
  then show ?thesis
    using assms loop_raw_receiver [of A other] by (simp split: if_splits)
qed

text \<open>
  C9. For any image \<open>A\<close>, forged or raw, both collection overloads of
  \<^verbatim>\<open>IsOverlappingView\<close> give the result they give on the forged elements of the
  collection alone, and they return false, having looked at every element, when no
  element is forged (an empty collection has none). When an overload throws, the
  error is \<^verbatim>\<open>E::IMAGE_NOT_FORGED\<close>, \<open>A\<close> is raw and the collection has a forged
  element; and a raw \<open>A\<close> with a forged element in the collection does make it throw.
\<close>

theorem IsOverlappingView_collection_raw:
  "IsOverlappingView_ImageConstRefArray A other
     = IsOverlappingView_ImageConstRefArray A (filter IsForged other) \<and>
   IsOverlappingView_ImageArray A other
     = IsOverlappingView_ImageArray A (filter IsForged other) \<and>
   ((\<forall>tmp \<in> set other. \<not> IsForged tmp) \<longrightarrow>
      IsOverlappingView_ImageConstRefArray A other = Inr False \<and>
      IsOverlappingView_ImageArray A other = Inr False \<and>
      IsOverlappingView_loop A other = (Inr False, length other)) \<and>
   (\<forall>e. IsOverlappingView_ImageConstRefArray A other = Inl e \<or>
        IsOverlappingView_ImageArray A other = Inl e \<longrightarrow>
        e = IMAGE_NOT_FORGED \<and> \<not> IsForged A \<and> (\<exists>tmp \<in> set other. IsForged tmp)) \<and>
   (\<not> IsForged A \<and> (\<exists>tmp \<in> set other. IsForged tmp) \<longrightarrow>
      IsOverlappingView_ImageConstRefArray A other = Inl IMAGE_NOT_FORGED \<and>
      IsOverlappingView_ImageArray A other = Inl IMAGE_NOT_FORGED)"
proof -
  have filtered:
    "IsOverlappingView_ImageConstRefArray A other
       = IsOverlappingView_ImageConstRefArray A (filter IsForged other)"
    "IsOverlappingView_ImageArray A other
       = IsOverlappingView_ImageArray A (filter IsForged other)"
    by (simp_all only: IsOverlappingView_ImageConstRefArray_def IsOverlappingView_ImageArray_def
        loop_filter_forged)
  have all_raw: "(\<forall>tmp \<in> set other. \<not> IsForged tmp) \<longrightarrow>
      IsOverlappingView_ImageConstRefArray A other = Inr False \<and>
      IsOverlappingView_ImageArray A other = Inr False \<and>
      IsOverlappingView_loop A other = (Inr False, length other)"
  proof
    assume "\<forall>tmp \<in> set other. \<not> IsForged tmp"
    then have "IsOverlappingView_loop A other = (Inr False, length other)"
      using loop_runs_to_end [of other A] by blast
    then show "IsOverlappingView_ImageConstRefArray A other = Inr False \<and>
      IsOverlappingView_ImageArray A other = Inr False \<and>
      IsOverlappingView_loop A other = (Inr False, length other)"
      by (simp add: IsOverlappingView_ImageConstRefArray_def IsOverlappingView_ImageArray_def)
  qed
  have err: "\<forall>e. IsOverlappingView_ImageConstRefArray A other = Inl e \<or>
        IsOverlappingView_ImageArray A other = Inl e \<longrightarrow>
        e = IMAGE_NOT_FORGED \<and> \<not> IsForged A \<and> (\<exists>tmp \<in> set other. IsForged tmp)"
    unfolding IsOverlappingView_ImageConstRefArray_def IsOverlappingView_ImageArray_def
    using loop_error [of A other] by blast
  have raw_receiver: "\<not> IsForged A \<and> (\<exists>tmp \<in> set other. IsForged tmp) \<longrightarrow>
      IsOverlappingView_ImageConstRefArray A other = Inl IMAGE_NOT_FORGED \<and>
      IsOverlappingView_ImageArray A other = Inl IMAGE_NOT_FORGED"
    unfolding IsOverlappingView_ImageConstRefArray_def IsOverlappingView_ImageArray_def
    using loop_raw_receiver [of A other] by simp
  show ?thesis
    by (intro conjI) (rule filtered all_raw err raw_receiver)+
qed

theorem IsOverlappingView_collection_raw_witness:
  "\<not> IsForged example_raw \<and> \<not> IsForged Image_default \<and>
   IsOverlappingView_ImageArray example_raw [Image_default, example_raw] = Inr False \<and>
   IsOverlappingView_ImageConstRefArray example_raw [Image_default, example_raw] = Inr False \<and>
   IsOverlappingView_ImageArray example_raw [] = Inr False \<and>
   IsOverlappingView_ImageArray example_view_low [example_raw, example_view_high, Image_default]
     = IsOverlappingView_ImageArray example_view_low [example_view_high] \<and>
   IsOverlappingView_ImageArray example_raw [Image_default, example_view_low]
     = Inl IMAGE_NOT_FORGED"
proof -
  have all_raw: "\<forall>tmp \<in> set [Image_default, example_raw]. \<not> IsForged tmp"
    "\<forall>tmp \<in> set ([] :: Image list). \<not> IsForged tmp"
    using example_forged by simp_all
  have one_forged: "\<not> IsForged example_raw \<and>
      (\<exists>tmp \<in> set [Image_default, example_view_low]. IsForged tmp)"
    using example_forged by simp
  have forged_only: "filter IsForged [example_raw, example_view_high, Image_default]
      = [example_view_high]"
    using example_forged by simp
  have "IsOverlappingView_ImageArray example_raw [Image_default, example_raw] = Inr False"
    "IsOverlappingView_ImageConstRefArray example_raw [Image_default, example_raw] = Inr False"
    using IsOverlappingView_collection_raw [of example_raw "[Image_default, example_raw]"]
      all_raw(1) by blast+
  moreover have "IsOverlappingView_ImageArray example_raw [] = Inr False"
    using IsOverlappingView_collection_raw [of example_raw "[]"] all_raw(2) by blast
  moreover have "IsOverlappingView_ImageArray example_view_low
        [example_raw, example_view_high, Image_default]
      = IsOverlappingView_ImageArray example_view_low
          (filter IsForged [example_raw, example_view_high, Image_default])"
    using IsOverlappingView_collection_raw [of example_view_low
        "[example_raw, example_view_high, Image_default]"] by blast
  moreover have "IsOverlappingView_ImageArray example_raw [Image_default, example_view_low]
      = Inl IMAGE_NOT_FORGED"
    using IsOverlappingView_collection_raw [of example_raw "[Image_default, example_view_low]"]
      one_forged by blast
  ultimately show ?thesis
    using example_forged(5,6) by (simp only: forged_only simp_thms)
qed

section \<open>Raw-state mutators\<close>







section \<open>Releasing the data segment\<close>

lemma shared_ptr_release_at:
  "p \<noteq> nullptr \<Longrightarrow> shared_ptr_release p s p = s p - 1"
  by (simp add: shared_ptr_release_def)

lemma shared_ptr_release_other:
  "q \<noteq> p \<Longrightarrow> shared_ptr_release p s q = s q"
  by (simp add: shared_ptr_release_def)

lemma shared_ptr_assign_nullptr:
  "shared_ptr_assign p nullptr s = shared_ptr_release p s"
  by (simp add: shared_ptr_assign_def shared_ptr_acquire_def)

lemma shared_ptr_assign_from_nullptr:
  "shared_ptr_assign nullptr p s = shared_ptr_acquire p s"
  by (simp add: shared_ptr_assign_def shared_ptr_release_def)

lemma Strip_forged_unprotected:
  "IsForged img \<Longrightarrow> \<not> IsProtected img \<Longrightarrow>
   Strip img s = (Inr (), img\<lparr>dataBlock := nullptr, origin := nullptr\<rparr>,
                  shared_ptr_release (dataBlock img) s)"
  by (simp add: Strip_def shared_ptr_assign_nullptr)

lemma Strip_forged_protected:
  "IsForged img \<Longrightarrow> IsProtected img \<Longrightarrow>
   Strip img s = (Inl (Message ''Image is protected''), img, s)"
  by (simp add: Strip_def)

lemma Strip_raw:
  "\<not> IsForged img \<Longrightarrow> Strip img s = (Inr (), img, s)"
  by (simp add: Strip_def)

text \<open>
  C2, as the claim states it, fails on a raw image whose protect flag is set:
  \<^verbatim>\<open>Strip()\<close> tests the flag only inside \<^verbatim>\<open>if( IsForged() )\<close>, so the call
  succeeds and changes nothing.
\<close>

theorem Strip_raw_protected_succeeds:
  "\<not> IsForged (Protect example_raw True) \<and>
   IsProtected (Protect example_raw True) \<and>
   Strip (Protect example_raw True) example_store
     = (Inr (), Protect example_raw True, example_store)"
  by (simp add: Strip_def Protect_def IsProtected_def IsForged_def example_raw_def
      Image_default_def)

text \<open>
  C2, amended. On a forged image \<^verbatim>\<open>Strip()\<close> throws "Image is protected" when the
  protect flag is set, and the image and the store stay as they are. When the flag is
  clear the call succeeds: the data block pointer and the origin are reset and nothing
  else of the image changes, so the image is raw; the segment loses one owner, it is
  freed exactly when the image was its last owner, and no other segment is touched. On
  a raw image the call succeeds and changes nothing, whatever the protect flag is.
\<close>

theorem Strip_spec:
  "(IsForged img \<and> IsProtected img \<longrightarrow>
      Strip img s = (Inl (Message ''Image is protected''), img, s)) \<and>
   (IsForged img \<and> \<not> IsProtected img \<longrightarrow>
      (\<exists>img' s'. Strip img s = (Inr (), img', s') \<and>
         \<not> IsForged img' \<and>
         img' = img\<lparr>dataBlock := nullptr, origin := nullptr\<rparr> \<and>
         (dataBlock img \<noteq> nullptr \<longrightarrow>
            s' (dataBlock img) = s (dataBlock img) - 1 \<and>
            (freed s' (dataBlock img) \<longleftrightarrow> s (dataBlock img) \<le> 1)) \<and>
         (\<forall>p. p \<noteq> dataBlock img \<longrightarrow> s' p = s p))) \<and>
   (\<not> IsForged img \<longrightarrow> Strip img s = (Inr (), img, s) \<and> \<not> IsForged (fst (snd (Strip img s))))"
proof (intro conjI impI)
  assume "IsForged img \<and> IsProtected img"
  then show "Strip img s = (Inl (Message ''Image is protected''), img, s)"
    by (simp add: Strip_forged_protected)
next
  assume a: "IsForged img \<and> \<not> IsProtected img"
  let ?img' = "img\<lparr>dataBlock := nullptr, origin := nullptr\<rparr>"
  let ?s' = "shared_ptr_release (dataBlock img) s"
  have "Strip img s = (Inr (), ?img', ?s')"
    using a by (simp add: Strip_forged_unprotected)
  moreover have "\<not> IsForged ?img'"
    by (simp add: IsForged_def)
  moreover have "dataBlock img \<noteq> nullptr \<longrightarrow>
      ?s' (dataBlock img) = s (dataBlock img) - 1 \<and>
      (freed ?s' (dataBlock img) \<longleftrightarrow> s (dataBlock img) \<le> 1)"
    by (auto simp: shared_ptr_release_at freed_def)
  moreover have "\<forall>p. p \<noteq> dataBlock img \<longrightarrow> ?s' p = s p"
    by (simp add: shared_ptr_release_other)
  ultimately show "\<exists>img' s'. Strip img s = (Inr (), img', s') \<and>
         \<not> IsForged img' \<and>
         img' = img\<lparr>dataBlock := nullptr, origin := nullptr\<rparr> \<and>
         (dataBlock img \<noteq> nullptr \<longrightarrow>
            s' (dataBlock img) = s (dataBlock img) - 1 \<and>
            (freed s' (dataBlock img) \<longleftrightarrow> s (dataBlock img) \<le> 1)) \<and>
         (\<forall>p. p \<noteq> dataBlock img \<longrightarrow> s' p = s p)"
    by blast
next
  assume "\<not> IsForged img"
  then show "Strip img s = (Inr (), img, s)"
    by (simp add: Strip_raw)
next
  assume "\<not> IsForged img"
  then show "\<not> IsForged (fst (snd (Strip img s)))"
    by (simp add: Strip_raw)
qed

theorem Strip_spec_witness:
  "IsForged example_parent \<and> IsProtected example_parent \<and>
   IsForged example_view_low \<and> \<not> IsProtected example_view_low \<and>
   Strip example_parent example_store
     = (Inl (Message ''Image is protected''), example_parent, example_store) \<and>
   fst (Strip example_view_low example_store) = Inr () \<and>
   origin (fst (snd (Strip example_view_low example_store))) = nullptr \<and>
   snd (snd (Strip example_view_low example_store)) 1000 = 1 \<and>
   \<not> freed (snd (snd (Strip example_view_low example_store))) 1000"
proof -
  have prot: "IsProtected example_parent" "\<not> IsProtected example_view_low"
    by (simp_all add: IsProtected_def example_parent_def example_view_low_def)
  have block: "dataBlock example_view_low = 1000" "example_store 1000 = 2"
    "(1000 :: pointer) \<noteq> nullptr"
    by (simp_all add: example_view_low_def example_parent_def example_store_def)
  have "Strip example_parent example_store
      = (Inl (Message ''Image is protected''), example_parent, example_store)"
    using Strip_spec [of example_parent example_store] example_forged prot by simp
  moreover obtain img' s' where strip: "Strip example_view_low example_store = (Inr (), img', s')"
      and img': "img' = example_view_low\<lparr>dataBlock := nullptr, origin := nullptr\<rparr>"
      and s': "s' 1000 = example_store 1000 - 1" "freed s' 1000 \<longleftrightarrow> example_store 1000 \<le> 1"
    using Strip_spec [of example_view_low example_store] example_forged prot block by auto
  have "fst (Strip example_view_low example_store) = Inr ()"
    "origin (fst (snd (Strip example_view_low example_store))) = nullptr"
    "snd (snd (Strip example_view_low example_store)) 1000 = 1"
    "\<not> freed (snd (snd (Strip example_view_low example_store))) 1000"
    using strip img' s' block by simp_all
  ultimately show ?thesis using example_forged prot by simp
qed

section \<open>Failures leave the image as it was\<close>

lemma forged_mutator_fails:
  assumes "IsForged img"
  shows "SetSizes img d = (Inl IMAGE_NOT_RAW, img)"
    and "SetStrides img st = (Inl IMAGE_NOT_RAW, img)"
    and "SetTensorStride img ts = (Inl IMAGE_NOT_RAW, img)"
    and "SetDataType img dt = (Inl IMAGE_NOT_RAW, img)"
    and "SetExternalInterface img ei = (Inl IMAGE_NOT_RAW, img)"
    and "CopyProperties img src = (Inl IMAGE_NOT_RAW, img)"
    and "SetTensorSizes Tensor_SetSizes img tdims = (Inl IMAGE_NOT_RAW, img)"
    and "SetTensorSizes_nelems Tensor_SetVector img nelems = (Inl IMAGE_NOT_RAW, img)"
  using assms
  by (simp_all add: SetSizes_def SetStrides_def SetTensorStride_def SetDataType_def
      SetExternalInterface_def CopyProperties_def SetTensorSizes_def SetTensorSizes_nelems_def)

lemma plain_mutator_error_unchanged:
  "fst (SetSizes img d) = Inl e \<Longrightarrow> snd (SetSizes img d) = img"
  "fst (SetStrides img st) = Inl e \<Longrightarrow> snd (SetStrides img st) = img"
  "fst (SetTensorStride img ts) = Inl e \<Longrightarrow> snd (SetTensorStride img ts) = img"
  "fst (SetDataType img dt) = Inl e \<Longrightarrow> snd (SetDataType img dt) = img"
  "fst (SetExternalInterface img ei) = Inl e \<Longrightarrow> snd (SetExternalInterface img ei) = img"
  "fst (CopyProperties img src) = Inl e \<Longrightarrow> snd (CopyProperties img src) = img"
  by (simp_all add: SetSizes_def SetStrides_def SetTensorStride_def SetDataType_def
      SetExternalInterface_def CopyProperties_def split: if_splits)

lemma Strip_error_unchanged:
  "fst (Strip img s) = Inl e \<Longrightarrow> snd (Strip img s) = (img, s)"
  by (simp add: Strip_def split: if_splits)

lemma raw_query_fails:
  assumes "\<not> IsForged img"
  shows "Data img = Inl IMAGE_NOT_FORGED"
    and "Origin img = Inl IMAGE_NOT_FORGED"
    and "IsShared img s = Inl IMAGE_NOT_FORGED"
    and "ShareCount img s = Inl IMAGE_NOT_FORGED"
    and "SharesData img other = Inl IMAGE_NOT_FORGED"
    and "SharesData other img = Inl IMAGE_NOT_FORGED"
    and "IsIdenticalView img other = Inl IMAGE_NOT_FORGED"
    and "IsIdenticalView other img = Inl IMAGE_NOT_FORGED"
  using assms
  by (simp_all add: Data_def Origin_def IsShared_def ShareCount_def SharesData_def
      IsIdenticalView_def)

text \<open>
  C7. A raw-state mutator called on a forged image throws \<^verbatim>\<open>E::IMAGE_NOT_RAW\<close> and
  the image after the call is the image before it; whenever one of the plain mutators
  or \<^verbatim>\<open>CopyProperties\<close> fails at all, the image is unchanged. \<^verbatim>\<open>Strip()\<close> on a
  protected forged image throws and leaves the image and the store unchanged, and
  whenever \<^verbatim>\<open>Strip()\<close> fails they are unchanged. A query that requires a forged image
  throws \<^verbatim>\<open>E::IMAGE_NOT_FORGED\<close> on a raw one; being a \<^verbatim>\<open>const\<close> member function it
  has no image to hand back but the one it was given.
\<close>

theorem failure_leaves_image_unchanged:
  "(IsForged img \<longrightarrow>
      SetSizes img d = (Inl IMAGE_NOT_RAW, img) \<and>
      SetStrides img st = (Inl IMAGE_NOT_RAW, img) \<and>
      SetTensorStride img ts = (Inl IMAGE_NOT_RAW, img) \<and>
      SetDataType img dt = (Inl IMAGE_NOT_RAW, img) \<and>
      SetExternalInterface img ei = (Inl IMAGE_NOT_RAW, img) \<and>
      CopyProperties img src = (Inl IMAGE_NOT_RAW, img) \<and>
      SetTensorSizes Tensor_SetSizes img tdims = (Inl IMAGE_NOT_RAW, img) \<and>
      SetTensorSizes_nelems Tensor_SetVector img nelems = (Inl IMAGE_NOT_RAW, img)) \<and>
   (\<forall>e. fst (SetSizes img d) = Inl e \<longrightarrow> snd (SetSizes img d) = img) \<and>
   (\<forall>e. fst (SetStrides img st) = Inl e \<longrightarrow> snd (SetStrides img st) = img) \<and>
   (\<forall>e. fst (SetTensorStride img ts) = Inl e \<longrightarrow> snd (SetTensorStride img ts) = img) \<and>
   (\<forall>e. fst (SetDataType img dt) = Inl e \<longrightarrow> snd (SetDataType img dt) = img) \<and>
   (\<forall>e. fst (SetExternalInterface img ei) = Inl e \<longrightarrow> snd (SetExternalInterface img ei) = img) \<and>
   (\<forall>e. fst (CopyProperties img src) = Inl e \<longrightarrow> snd (CopyProperties img src) = img) \<and>
   (IsForged img \<and> IsProtected img \<longrightarrow>
      Strip img s = (Inl (Message ''Image is protected''), img, s)) \<and>
   (\<forall>e. fst (Strip img s) = Inl e \<longrightarrow> snd (Strip img s) = (img, s)) \<and>
   (\<not> IsForged img \<longrightarrow>
      Data img = Inl IMAGE_NOT_FORGED \<and>
      Origin img = Inl IMAGE_NOT_FORGED \<and>
      IsShared img s = Inl IMAGE_NOT_FORGED \<and>
      ShareCount img s = Inl IMAGE_NOT_FORGED \<and>
      SharesData img other = Inl IMAGE_NOT_FORGED \<and>
      SharesData other img = Inl IMAGE_NOT_FORGED \<and>
      IsIdenticalView img other = Inl IMAGE_NOT_FORGED \<and>
      IsIdenticalView other img = Inl IMAGE_NOT_FORGED)"
proof -
  have forged: "IsForged img \<longrightarrow>
      SetSizes img d = (Inl IMAGE_NOT_RAW, img) \<and>
      SetStrides img st = (Inl IMAGE_NOT_RAW, img) \<and>
      SetTensorStride img ts = (Inl IMAGE_NOT_RAW, img) \<and>
      SetDataType img dt = (Inl IMAGE_NOT_RAW, img) \<and>
      SetExternalInterface img ei = (Inl IMAGE_NOT_RAW, img) \<and>
      CopyProperties img src = (Inl IMAGE_NOT_RAW, img) \<and>
      SetTensorSizes Tensor_SetSizes img tdims = (Inl IMAGE_NOT_RAW, img) \<and>
      SetTensorSizes_nelems Tensor_SetVector img nelems = (Inl IMAGE_NOT_RAW, img)"
    by (simp add: forged_mutator_fails)
  have any:
    "\<forall>e. fst (SetSizes img d) = Inl e \<longrightarrow> snd (SetSizes img d) = img"
    "\<forall>e. fst (SetStrides img st) = Inl e \<longrightarrow> snd (SetStrides img st) = img"
    "\<forall>e. fst (SetTensorStride img ts) = Inl e \<longrightarrow> snd (SetTensorStride img ts) = img"
    "\<forall>e. fst (SetDataType img dt) = Inl e \<longrightarrow> snd (SetDataType img dt) = img"
    "\<forall>e. fst (SetExternalInterface img ei) = Inl e \<longrightarrow> snd (SetExternalInterface img ei) = img"
    "\<forall>e. fst (CopyProperties img src) = Inl e \<longrightarrow> snd (CopyProperties img src) = img"
    by (simp_all add: plain_mutator_error_unchanged)
  have strip: "IsForged img \<and> IsProtected img \<longrightarrow>
      Strip img s = (Inl (Message ''Image is protected''), img, s)"
    "\<forall>e. fst (Strip img s) = Inl e \<longrightarrow> snd (Strip img s) = (img, s)"
    by (simp_all add: Strip_forged_protected Strip_error_unchanged)
  have query: "\<not> IsForged img \<longrightarrow>
      Data img = Inl IMAGE_NOT_FORGED \<and>
      Origin img = Inl IMAGE_NOT_FORGED \<and>
      IsShared img s = Inl IMAGE_NOT_FORGED \<and>
      ShareCount img s = Inl IMAGE_NOT_FORGED \<and>
      SharesData img other = Inl IMAGE_NOT_FORGED \<and>
      SharesData other img = Inl IMAGE_NOT_FORGED \<and>
      IsIdenticalView img other = Inl IMAGE_NOT_FORGED \<and>
      IsIdenticalView other img = Inl IMAGE_NOT_FORGED"
    by (simp add: raw_query_fails)
  show ?thesis
    by (intro conjI) (rule forged any strip query)+
qed

theorem failure_leaves_image_unchanged_witness:
  "IsForged example_parent \<and> IsProtected example_parent \<and> \<not> IsForged example_raw \<and>
   SetSizes example_parent [7] = (Inl IMAGE_NOT_RAW, example_parent) \<and>
   CopyProperties example_parent example_raw = (Inl IMAGE_NOT_RAW, example_parent) \<and>
   SetTensorSizes_nelems example_SetVector example_parent 3 = (Inl IMAGE_NOT_RAW, example_parent) \<and>
   Strip example_parent example_store
     = (Inl (Message ''Image is protected''), example_parent, example_store) \<and>
   ShareCount example_raw example_store = Inl IMAGE_NOT_FORGED \<and>
   SharesData example_parent example_raw = Inl IMAGE_NOT_FORGED"
proof -
  have prot: "IsProtected example_parent"
    by (simp add: IsProtected_def example_parent_def)
  have "SetSizes example_parent [7] = (Inl IMAGE_NOT_RAW, example_parent)"
    "CopyProperties example_parent example_raw = (Inl IMAGE_NOT_RAW, example_parent)"
    "SetTensorSizes_nelems example_SetVector example_parent 3
      = (Inl IMAGE_NOT_RAW, example_parent)"
    "Strip example_parent example_store
      = (Inl (Message ''Image is protected''), example_parent, example_store)"
    using failure_leaves_image_unchanged [of example_parent "[7]" _ _ _ _ example_raw _ _
        example_SetVector 3 example_store] example_forged prot
    by simp_all
  moreover have "ShareCount example_raw example_store = Inl IMAGE_NOT_FORGED"
    "SharesData example_parent example_raw = Inl IMAGE_NOT_FORGED"
    using failure_leaves_image_unchanged [of example_raw _ _ _ _ _ _ _ _ _ _ example_store
        example_parent] example_forged
    by simp_all
  ultimately show ?thesis using example_forged prot by simp
qed

section \<open>The quick copy\<close>

text \<open>
  C10. \<^verbatim>\<open>A.QuickCopy()\<close> returns an image with the data block pointer and the origin
  of \<open>A\<close> (so it is forged exactly when \<open>A\<close> is, and shares data with \<open>A\<close> then, the
  segment having gained an owner), with the data type, sizes, strides, tensor, tensor
  stride and external interface of \<open>A\<close>, with an empty colour space, a
  default-initialized pixel size and a clear protect flag, whatever the colour space,
  the pixel size and the protect flag of \<open>A\<close> are.
\<close>

theorem QuickCopy_spec:
  assumes "QuickCopy A s = (out, s')"
  shows "dataBlock out = dataBlock A \<and> origin out = origin A \<and>
         dataType out = dataType A \<and> sizes out = sizes A \<and> strides out = strides A \<and>
         tensor out = tensor A \<and> tensorStride out = tensorStride A \<and>
         externalInterface out = externalInterface A \<and>
         colorSpace out = [] \<and> pixelSize out = PixelSize_default \<and> protect out = False \<and>
         s' = shared_ptr_acquire (dataBlock A) s \<and>
         IsForged out = IsForged A \<and>
         (IsForged A \<longrightarrow> SharesData A out = Inr True)"
proof -
  have out: "out = Image_default\<lparr>dataType := dataType A, sizes := sizes A, strides := strides A,
      tensor := tensor A, tensorStride := tensorStride A, dataBlock := dataBlock A,
      origin := origin A, externalInterface := externalInterface A\<rparr>"
    and s': "s' = shared_ptr_assign (dataBlock Image_default) (dataBlock A) s"
    using assms by (simp_all add: QuickCopy_def Let_def)
  have "dataBlock Image_default = nullptr"
    by (simp add: Image_default_def)
  then have "s' = shared_ptr_acquire (dataBlock A) s"
    using s' by (simp add: shared_ptr_assign_from_nullptr)
  moreover have "dataBlock out = dataBlock A" "origin out = origin A"
    "dataType out = dataType A" "sizes out = sizes A" "strides out = strides A"
    "tensor out = tensor A" "tensorStride out = tensorStride A"
    "externalInterface out = externalInterface A"
    by (simp_all add: out)
  moreover have "colorSpace out = []" "pixelSize out = PixelSize_default" "protect out = False"
    by (simp_all add: out Image_default_def)
  moreover have "IsForged out = IsForged A"
    by (simp add: IsForged_def out)
  moreover have "IsForged A \<longrightarrow> SharesData A out = Inr True"
    by (simp add: SharesData_def IsForged_def out)
  ultimately show ?thesis by simp
qed

theorem QuickCopy_spec_witness:
  "protect example_parent = True \<and> colorSpace example_parent = ''RGB'' \<and>
   pixelSize example_parent \<noteq> PixelSize_default \<and>
   protect (fst (QuickCopy example_parent example_store)) = False \<and>
   colorSpace (fst (QuickCopy example_parent example_store)) = [] \<and>
   pixelSize (fst (QuickCopy example_parent example_store)) = PixelSize_default \<and>
   dataBlock (fst (QuickCopy example_parent example_store)) = 1000 \<and>
   origin (fst (QuickCopy example_parent example_store)) = 1000 \<and>
   sizes (fst (QuickCopy example_parent example_store)) = [3, 3] \<and>
   snd (QuickCopy example_parent example_store) 1000 = 3 \<and>
   SharesData example_parent (fst (QuickCopy example_parent example_store)) = Inr True"
proof -
  obtain out s' where q: "QuickCopy example_parent example_store = (out, s')"
    by (cases "QuickCopy example_parent example_store")
  note spec = QuickCopy_spec [OF q]
  have parent: "protect example_parent = True" "colorSpace example_parent = ''RGB''"
    "pixelSize example_parent \<noteq> PixelSize_default" "dataBlock example_parent = 1000"
    "origin example_parent = 1000" "sizes example_parent = [3, 3]"
    by (simp_all add: example_parent_def PixelSize_default_def)
  have "s' 1000 = 3"
    using spec by (simp add: parent shared_ptr_acquire_def example_store_def)
  moreover have "SharesData example_parent out = Inr True"
    using spec example_forged by simp
  ultimately show ?thesis
    using spec parent by (simp add: q)
qed

end
